theory Spec2Isabelle
  imports Complex_Main
begin

section \<open>Conventions\<close>

text \<open>
  Python floats and numpy float64 entries are modelled as \<^typ>\<open>real\<close>: every statement
  below is about exact real arithmetic, without rounding, infinities or NaN.
  A Python exception is a value \<open>Inl e\<close> of a sum type; a normal return is \<open>Inr v\<close>.
  Objects that the source shares by reference and mutates (the animations held by a
  Timeline and by a Scene, the vectors held by a Scene) live in a store, a function from
  addresses (\<^typ>\<open>nat\<close>) to object states, and the containers hold addresses.
  Private attributes lose their leading underscore; a prefix is added where two classes
  use the same attribute name or the name is taken by the library.
\<close>

datatype error = ValueError | ZeroDivisionError

text \<open>Python's \<open>a / b\<close> on floats raises \<open>ZeroDivisionError\<close> when \<open>b\<close> is zero.\<close>

definition py_div :: "real \<Rightarrow> real \<Rightarrow> error + real" where
  "py_div a b = (if b = 0 then Inl ZeroDivisionError else Inr (a / b))"

text \<open>Sequencing of computations that may raise: the first exception wins.\<close>

definition err_bind :: "error + 'a \<Rightarrow> ('a \<Rightarrow> error + 'b) \<Rightarrow> error + 'b" where
  "err_bind m f = (case m of Inl e \<Rightarrow> Inl e | Inr v \<Rightarrow> f v)"

fun err_map :: "('a \<Rightarrow> error + 'b) \<Rightarrow> 'a list \<Rightarrow> error + 'b list" where
  "err_map f [] = Inr []"
| "err_map f (x # xs) =
     err_bind (f x) (\<lambda>y. err_bind (err_map f xs) (\<lambda>ys. Inr (y # ys)))"

text \<open>Python's \<open>max\<close> of an iterable raises \<open>ValueError\<close> on an empty one.\<close>

fun py_max :: "real list \<Rightarrow> error + real" where
  "py_max [] = Inl ValueError"
| "py_max (x # xs) = Inr (foldl max x xs)"

section \<open>numpy on one-dimensional float arrays\<close>

text \<open>
  An elementwise binary operation broadcasts its operands: equal lengths pair up, an array
  of length 1 is stretched to the other's length, and any other pair of lengths raises
  \<open>ValueError\<close> (operands could not be broadcast together).
\<close>

definition np_broadcast :: "real list \<Rightarrow> real list \<Rightarrow> error + (real \<times> real) list" where
  "np_broadcast a b =
     (if length a = length b then Inr (zip a b)
      else if length a = 1 then Inr (map (\<lambda>y. (hd a, y)) b)
      else if length b = 1 then Inr (map (\<lambda>x. (x, hd b)) a)
      else Inl ValueError)"

definition np_add :: "real list \<Rightarrow> real list \<Rightarrow> error + real list" where
  "np_add a b = err_bind (np_broadcast a b) (\<lambda>ps. Inr (map (\<lambda>(x, y). x + y) ps))"

definition np_sub :: "real list \<Rightarrow> real list \<Rightarrow> error + real list" where
  "np_sub a b = err_bind (np_broadcast a b) (\<lambda>ps. Inr (map (\<lambda>(x, y). x - y) ps))"

definition np_scale :: "real \<Rightarrow> real list \<Rightarrow> real list" where
  "np_scale t a = map (\<lambda>x. t * x) a"

text \<open>\<open>np.dot\<close> of two one-dimensional arrays does not broadcast: the lengths must agree.\<close>

definition np_dot :: "real list \<Rightarrow> real list \<Rightarrow> error + real" where
  "np_dot a b =
     (if length a = length b then Inr (sum_list (map (\<lambda>(x, y). x * y) (zip a b)))
      else Inl ValueError)"

definition np_norm :: "real list \<Rightarrow> real" where
  "np_norm a = sqrt (sum_list (map (\<lambda>x. x * x) a))"

definition np_zeros :: "nat \<Rightarrow> real list" where
  "np_zeros n = replicate n 0"

definition np_clip :: "real \<Rightarrow> real \<Rightarrow> real \<Rightarrow> real" where
  "np_clip x lo hi = min (max x lo) hi"

text \<open>\<open>np.allclose(a, b)\<close> with the default tolerances: every pair satisfies
  \<open>|a - b| \<le> atol + rtol * |b|\<close>, \<open>atol = 1e-8\<close>, \<open>rtol = 1e-5\<close>.\<close>

definition np_allclose :: "real list \<Rightarrow> real list \<Rightarrow> error + bool" where
  "np_allclose a b =
     err_bind (np_broadcast a b)
       (\<lambda>ps. Inr (list_all (\<lambda>(x, y). \<bar>x - y\<bar> \<le> 1 / 10 ^ 8 + (1 / 10 ^ 5) * \<bar>y\<bar>) ps))"

section \<open>animation/easing.py\<close>

definition Easing_linear :: "real \<Rightarrow> real" where
  "Easing_linear t = t"

definition Easing_ease_in_quad :: "real \<Rightarrow> real" where
  "Easing_ease_in_quad t = t * t"

definition Easing_ease_out_quad :: "real \<Rightarrow> real" where
  "Easing_ease_out_quad t = 1 - (1 - t) ^ 2"

definition Easing_ease_in_out_cubic :: "real \<Rightarrow> real" where
  "Easing_ease_in_out_cubic t =
     (if t < 1 / 2 then 4 * t ^ 3 else 1 - (- 2 * t + 2) ^ 3 / 2)"

section \<open>animation/animator.py: class Animation\<close>

record animation =
  duration :: real
  easing :: "real \<Rightarrow> real"
  elapsed :: real
  finished :: bool

text \<open>\<open>Animation.__init__\<close>; \<open>easing or Easing.ease_in_out_cubic\<close> takes the default
  when no easing is given.\<close>

definition Animation_init :: "real \<Rightarrow> (real \<Rightarrow> real) option \<Rightarrow> animation" where
  "Animation_init d e =
     \<lparr>duration = d,
      easing = (case e of None \<Rightarrow> Easing_ease_in_out_cubic | Some f \<Rightarrow> f),
      elapsed = 0,
      finished = False\<rparr>"

text \<open>\<open>min(1.0, self._elapsed / self._duration) if self._duration else 1.0\<close>\<close>

definition Animation_progress :: "animation \<Rightarrow> error + real" where
  "Animation_progress a =
     (if duration a \<noteq> 0
      then err_bind (py_div (elapsed a) (duration a)) (\<lambda>q. Inr (min 1 q))
      else Inr 1)"

definition Animation_eased_progress :: "animation \<Rightarrow> error + real" where
  "Animation_eased_progress a = err_bind (Animation_progress a) (\<lambda>p. Inr (easing a p))"

definition Animation_is_finished :: "animation \<Rightarrow> bool" where
  "Animation_is_finished a = finished a"

definition Animation_update :: "animation \<Rightarrow> real \<Rightarrow> animation" where
  "Animation_update a dt =
     (if finished a then a
      else let a1 = a\<lparr>elapsed := elapsed a + dt\<rparr>
           in if elapsed a1 \<ge> duration a1
              then a1\<lparr>elapsed := duration a1, finished := True\<rparr>
              else a1)"

definition Animation_reset :: "animation \<Rightarrow> animation" where
  "Animation_reset a = a\<lparr>elapsed := 0, finished := False\<rparr>"

section \<open>core/vector.py: class Vector\<close>

text \<open>
  A Vector's \<open>_previous_state\<close> is a private copy of the vector it was derived from, and
  its \<open>_pending_animation\<close> a VectorAnimation from that copy to the vector itself. Both
  are held by value here. The source's VectorAnimation refers back to the vector that
  owns it; the model's \<open>end_v\<close> is the value of that vector at the moment \<open>animate\<close>
  is called, so a later \<open>at\<close> or \<open>color\<close> on the vector is not seen through the
  model's animation. \<open>vscene\<close> is the address of the Scene the vector was added to.
  The methods \<open>transform\<close> (which needs class Matrix), \<open>cross\<close>, \<open>normalized\<close>,
  \<open>color\<close> and \<open>show\<close> are left out.
\<close>

datatype vector =
  Vector (components: "real list") (vdim: nat) (origin: "real list")
         (color: "real \<times> real \<times> real \<times> real")
         (pending_animation: "vector_animation option")
         (previous_state: "vector option")
         (vscene: "nat option")
and vector_animation =
  VectorAnimation (anim: animation) (start: vector) (end_v: vector)

text \<open>Attribute assignments.\<close>

definition set_origin :: "vector \<Rightarrow> real list \<Rightarrow> vector" where
  "set_origin v x =
     Vector (components v) (vdim v) x (color v) (pending_animation v) (previous_state v) (vscene v)"

definition set_color :: "vector \<Rightarrow> real \<times> real \<times> real \<times> real \<Rightarrow> vector" where
  "set_color v x =
     Vector (components v) (vdim v) (origin v) x (pending_animation v) (previous_state v) (vscene v)"

definition set_pending_animation :: "vector \<Rightarrow> vector_animation option \<Rightarrow> vector" where
  "set_pending_animation v x =
     Vector (components v) (vdim v) (origin v) (color v) x (previous_state v) (vscene v)"

definition set_previous_state :: "vector \<Rightarrow> vector option \<Rightarrow> vector" where
  "set_previous_state v x =
     Vector (components v) (vdim v) (origin v) (color v) (pending_animation v) x (vscene v)"

definition set_vscene :: "vector \<Rightarrow> nat option \<Rightarrow> vector" where
  "set_vscene v x =
     Vector (components v) (vdim v) (origin v) (color v) (pending_animation v) (previous_state v) x"

text \<open>
  \<open>Vector.__init__(*components, origin=None)\<close> on float components. A single float
  argument has no \<open>__iter__\<close>, so the unpacking branch is not taken and the arity check
  refuses it. \<open>origin if origin else np.zeros(dim)\<close>: \<open>None\<close> and the empty tuple are
  both replaced by zeros.
\<close>

definition Vector_init :: "real list \<Rightarrow> real list option \<Rightarrow> error + vector" where
  "Vector_init cs org =
     (if length cs \<noteq> 2 \<and> length cs \<noteq> 3 then Inl ValueError
      else Inr (Vector cs (length cs)
                  (case org of
                     None \<Rightarrow> np_zeros (length cs)
                   | Some og \<Rightarrow> if og = [] then np_zeros (length cs) else og)
                  (1, 3 / 10, 3 / 10, 1) None None None))"

definition Vector_magnitude :: "vector \<Rightarrow> real" where
  "Vector_magnitude self = np_norm (components self)"

definition Vector_copy :: "vector \<Rightarrow> error + vector" where
  "Vector_copy self =
     err_bind (Vector_init (components self) (Some (origin self)))
       (\<lambda>v. Inr (set_color v (color self)))"

text \<open>The tail shared by \<open>scale\<close>, \<open>add\<close>, \<open>subtract\<close> and \<open>project_onto\<close>:
  build the result at the receiver's origin, then copy its colour, record a copy of the
  receiver as previous state, and copy its scene.\<close>

definition derived :: "vector \<Rightarrow> real list \<Rightarrow> error + vector" where
  "derived self cs =
     err_bind (Vector_init cs (Some (origin self))) (\<lambda>result.
     err_bind (Vector_copy self) (\<lambda>prev.
       Inr (set_vscene (set_previous_state (set_color result (color self)) (Some prev))
              (vscene self))))"

definition Vector_scale :: "vector \<Rightarrow> real \<Rightarrow> error + vector" where
  "Vector_scale self factor = derived self (np_scale factor (components self))"

definition Vector_add :: "vector \<Rightarrow> vector \<Rightarrow> error + vector" where
  "Vector_add self other =
     (if vdim self \<noteq> vdim other then Inl ValueError
      else err_bind (np_add (components self) (components other)) (derived self))"

definition Vector_subtract :: "vector \<Rightarrow> vector \<Rightarrow> error + vector" where
  "Vector_subtract self other =
     (if vdim self \<noteq> vdim other then Inl ValueError
      else err_bind (np_sub (components self) (components other)) (derived self))"

definition Vector_dot :: "vector \<Rightarrow> vector \<Rightarrow> error + real" where
  "Vector_dot self other =
     (if vdim self \<noteq> vdim other then Inl ValueError
      else np_dot (components self) (components other))"

definition Vector_project_onto :: "vector \<Rightarrow> vector \<Rightarrow> error + vector" where
  "Vector_project_onto self other =
     (if vdim self \<noteq> vdim other then Inl ValueError
      else err_bind (np_dot (components other) (components other)) (\<lambda>other_mag_sq.
           if other_mag_sq < 1 / 10 ^ 10 then Vector_init (np_zeros (vdim self)) None
           else err_bind (np_dot (components self) (components other)) (\<lambda>d.
                derived self (np_scale (d / other_mag_sq) (components other)))))"

definition Vector_angle_with :: "vector \<Rightarrow> vector \<Rightarrow> error + real" where
  "Vector_angle_with self other =
     (if vdim self \<noteq> vdim other then Inl ValueError
      else err_bind (np_dot (components self) (components other)) (\<lambda>d.
           Inr (arccos (np_clip
                  (d / (Vector_magnitude self * Vector_magnitude other + 1 / 10 ^ 10))
                  (- 1) 1))))"

definition Vector_at :: "vector \<Rightarrow> real list \<Rightarrow> vector" where
  "Vector_at self org = set_origin self org"

text \<open>\<open>Vector.__eq__\<close> against another Vector: the components only.\<close>

definition Vector_eq :: "vector \<Rightarrow> vector \<Rightarrow> error + bool" where
  "Vector_eq self other = np_allclose (components self) (components other)"

section \<open>animation/animator.py: class VectorAnimation\<close>

definition VectorAnimation_init ::
  "vector \<Rightarrow> vector \<Rightarrow> real \<Rightarrow> (real \<Rightarrow> real) option \<Rightarrow> vector_animation" where
  "VectorAnimation_init s e d f = VectorAnimation (Animation_init d f) s e"

definition VectorAnimation_update :: "vector_animation \<Rightarrow> real \<Rightarrow> vector_animation" where
  "VectorAnimation_update va dt =
     VectorAnimation (Animation_update (anim va) dt) (start va) (end_v va)"

text \<open>\<open>VectorAnimation.get_value\<close>, with the float64 operations of numpy taken as the
  exact operations on the reals: the shapes, the broadcasting errors and the formula are
  the program's, the rounding of each operation is not represented.\<close>

definition VectorAnimation_get_value ::
  "vector_animation \<Rightarrow> error + (real list \<times> real list)" where
  "VectorAnimation_get_value va =
     err_bind (Animation_eased_progress (anim va)) (\<lambda>t.
     err_bind (np_sub (components (end_v va)) (components (start va))) (\<lambda>dc.
     err_bind (np_add (components (start va)) (np_scale t dc)) (\<lambda>comps.
     err_bind (np_sub (origin (end_v va)) (origin (start va))) (\<lambda>dorg.
     err_bind (np_add (origin (start va)) (np_scale t dorg)) (\<lambda>org.
       Inr (comps, org))))))"

text \<open>\<open>Vector.animate(duration)\<close>\<close>

definition Vector_animate :: "vector \<Rightarrow> real \<Rightarrow> vector" where
  "Vector_animate self d =
     (case previous_state self of
        None \<Rightarrow> self
      | Some prev \<Rightarrow>
          set_pending_animation self (Some (VectorAnimation_init prev self d None)))"

section \<open>animation/timeline.py: class Timeline\<close>

text \<open>
  The animations of a Timeline are objects shared with their creators and with a Scene:
  the Timeline holds their addresses, and every operation that touches them takes and
  returns the store of animation objects. The dictionary \<open>_animations\<close> keeps insertion
  order: it is a list of pairs of a start time and a bucket of addresses.
\<close>

type_synonym anim_store = "nat \<Rightarrow> animation"

record timeline =
  tl_animations :: "(real \<times> nat list) list"
  current_time :: real
  is_playing :: bool
  is_finished :: bool

definition Timeline_init :: timeline where
  "Timeline_init =
     \<lparr>tl_animations = [], current_time = 0, is_playing = False, is_finished = False\<rparr>"

text \<open>\<open>self._animations[time].append(animation)\<close>\<close>

fun bucket_append :: "real \<Rightarrow> nat \<Rightarrow> (real \<times> nat list) list \<Rightarrow> (real \<times> nat list) list" where
  "bucket_append time a [] = []"
| "bucket_append time a ((t, anims) # rest) =
     (if t = time then (t, anims @ [a]) # rest
      else (t, anims) # bucket_append time a rest)"

definition Timeline_add_at :: "timeline \<Rightarrow> real \<Rightarrow> nat \<Rightarrow> timeline" where
  "Timeline_add_at tline time a =
     (let d = (if time \<notin> set (map fst (tl_animations tline))
               then tl_animations tline @ [(time, [])]
               else tl_animations tline)
      in tline\<lparr>tl_animations := bucket_append time a d\<rparr>)"

text \<open>\<open>max(t + max(a.duration for a in anims) for t, anims in self._animations.items())\<close>\<close>

definition Timeline_duration :: "timeline \<Rightarrow> anim_store \<Rightarrow> error + real" where
  "Timeline_duration tline st =
     (if tl_animations tline = [] then Inr 0
      else err_bind
             (err_map (\<lambda>(t, anims).
                  err_bind (py_max (map (\<lambda>a. duration (st a)) anims)) (\<lambda>m. Inr (t + m)))
                (tl_animations tline))
             py_max)"

definition Timeline_play :: "timeline \<Rightarrow> timeline" where
  "Timeline_play tline = tline\<lparr>is_playing := True, is_finished := False\<rparr>"

definition Timeline_pause :: "timeline \<Rightarrow> timeline" where
  "Timeline_pause tline = tline\<lparr>is_playing := False\<rparr>"

fun reset_bucket :: "nat list \<Rightarrow> anim_store \<Rightarrow> anim_store" where
  "reset_bucket [] st = st"
| "reset_bucket (a # anims) st = reset_bucket anims (st(a := Animation_reset (st a)))"

fun reset_buckets :: "(real \<times> nat list) list \<Rightarrow> anim_store \<Rightarrow> anim_store" where
  "reset_buckets [] st = st"
| "reset_buckets ((t, anims) # rest) st = reset_buckets rest (reset_bucket anims st)"

definition Timeline_stop :: "timeline \<Rightarrow> anim_store \<Rightarrow> timeline \<times> anim_store" where
  "Timeline_stop tline st =
     (tline\<lparr>is_playing := False, current_time := 0, is_finished := False\<rparr>,
      reset_buckets (tl_animations tline) st)"

text \<open>The two nested loops of \<open>Timeline.update\<close>; the state carried through them is the
  store and the flag \<open>all_finished\<close>.\<close>

fun update_bucket ::
  "real \<Rightarrow> real \<Rightarrow> real \<Rightarrow> nat list \<Rightarrow> anim_store \<times> bool \<Rightarrow> anim_store \<times> bool" where
  "update_bucket ct dt start_time [] (st, all_finished) = (st, all_finished)"
| "update_bucket ct dt start_time (a # anims) (st, all_finished) =
     (let st1 = (if ct \<ge> start_time \<and> \<not> Animation_is_finished (st a)
                 then st(a := Animation_update (st a) dt) else st);
          all_finished1 = (if \<not> Animation_is_finished (st1 a) then False else all_finished)
      in update_bucket ct dt start_time anims (st1, all_finished1))"

fun update_buckets ::
  "real \<Rightarrow> real \<Rightarrow> (real \<times> nat list) list \<Rightarrow> anim_store \<times> bool \<Rightarrow> anim_store \<times> bool" where
  "update_buckets ct dt [] s = s"
| "update_buckets ct dt ((start_time, anims) # rest) s =
     update_buckets ct dt rest (update_bucket ct dt start_time anims s)"

definition Timeline_update ::
  "timeline \<Rightarrow> anim_store \<Rightarrow> real \<Rightarrow> error + (timeline \<times> anim_store)" where
  "Timeline_update tline st dt =
     (if \<not> is_playing tline \<or> is_finished tline then Inr (tline, st)
      else let tl1 = tline\<lparr>current_time := current_time tline + dt\<rparr>;
               r = update_buckets (current_time tl1) dt (tl_animations tl1) (st, True)
           in if snd r
              then err_bind (Timeline_duration tl1 (fst r)) (\<lambda>d.
                     if current_time tl1 \<ge> d
                     then Inr (tl1\<lparr>is_finished := True, is_playing := False\<rparr>, fst r)
                     else Inr (tl1, fst r))
              else Inr (tl1, fst r))"

definition Timeline_get_active_animations :: "timeline \<Rightarrow> anim_store \<Rightarrow> nat list" where
  "Timeline_get_active_animations tline st =
     concat (map (\<lambda>(t, anims).
                    filter (\<lambda>a. current_time tline \<ge> t \<and> \<not> Animation_is_finished (st a)) anims)
               (tl_animations tline))"

definition Timeline_get_all_animations :: "timeline \<Rightarrow> nat list" where
  "Timeline_get_all_animations tline = concat (map snd (tl_animations tline))"

subsection \<open>Driving a Timeline\<close>

text \<open>
  What a caller observes when it calls \<open>update(dt)\<close> for each \<open>dt\<close> of a list and reads
  \<open>get_active_animations()\<close> after each call: the active animations with their states.
\<close>

definition active_view :: "timeline \<Rightarrow> anim_store \<Rightarrow> (nat \<times> animation) list" where
  "active_view tline st = map (\<lambda>a. (a, st a)) (Timeline_get_active_animations tline st)"

fun observe_run ::
  "timeline \<Rightarrow> anim_store \<Rightarrow> real list \<Rightarrow> error + (nat \<times> animation) list list" where
  "observe_run tline st [] = Inr []"
| "observe_run tline st (dt # dts) =
     err_bind (Timeline_update tline st dt) (\<lambda>r.
     err_bind (observe_run (fst r) (snd r) dts) (\<lambda>tr.
       Inr (active_view (fst r) (snd r) # tr)))"

text \<open>The state reached after the calls, without the observations.\<close>

fun Timeline_updates ::
  "timeline \<Rightarrow> anim_store \<Rightarrow> real list \<Rightarrow> error + (timeline \<times> anim_store)" where
  "Timeline_updates tline st [] = Inr (tline, st)"
| "Timeline_updates tline st (dt # dts) =
     err_bind (Timeline_update tline st dt) (\<lambda>r. Timeline_updates (fst r) (snd r) dts)"

text \<open>
  A fresh Timeline with the same schedule: the scheduling calls \<open>at(t).add(a)\<close> in the
  order of the dictionary, replayed on a new Timeline, with every scheduled animation a
  newly constructed one of the same duration and easing.
\<close>

definition schedule_of :: "timeline \<Rightarrow> (real \<times> nat) list" where
  "schedule_of tline = concat (map (\<lambda>(t, anims). map (\<lambda>a. (t, a)) anims) (tl_animations tline))"

definition scheduled :: "(real \<times> nat) list \<Rightarrow> timeline" where
  "scheduled sched = foldl (\<lambda>tline (t, a). Timeline_add_at tline t a) Timeline_init sched"

definition fresh_store :: "timeline \<Rightarrow> anim_store \<Rightarrow> anim_store" where
  "fresh_store tline st =
     (\<lambda>a. if a \<in> set (Timeline_get_all_animations tline)
          then Animation_init (duration (st a)) (Some (easing (st a)))
          else st a)"

text \<open>What Python guarantees of the dictionary (no key twice) and \<open>_add_at\<close> of its
  buckets (none is empty).\<close>

definition dict_ok :: "(real \<times> nat list) list \<Rightarrow> bool" where
  "dict_ok d = (distinct (map fst d) \<and> list_all (\<lambda>(t, anims). anims \<noteq> []) d)"

section \<open>scene/scene.py: class Scene\<close>

text \<open>
  The fields of a Scene that its object list and its playback use. The camera, grid,
  renderer and window are left out. \<open>objects\<close> holds addresses of vectors,
  \<open>sc_animations\<close> and \<open>original_animations\<close> addresses of animations.
\<close>

type_synonym vector_store = "nat \<Rightarrow> vector"

record scene =
  sc_dim :: nat
  objects :: "nat list"
  sc_animations :: "nat list"
  original_animations :: "nat list"
  sc_timeline :: timeline
  running :: bool
  paused :: bool
  step_size :: real

definition Scene_init :: "nat \<Rightarrow> error + scene" where
  "Scene_init d =
     (if d \<noteq> 2 \<and> d \<noteq> 3 then Inl ValueError
      else Inr \<lparr>sc_dim = d, objects = [], sc_animations = [], original_animations = [],
                sc_timeline = Timeline_init, running = False, paused = False,
                step_size = 5 / 100\<rparr>)"

text \<open>
  \<open>obj in self._objects\<close>: the list is searched from the front; an element matches when
  it is the same object or \<open>element == obj\<close> holds (CPython 3.9 and later put the
  element on the left). A comparison that raises ends the search with the exception.
\<close>

fun list_contains :: "vector_store \<Rightarrow> nat list \<Rightarrow> nat \<Rightarrow> error + bool" where
  "list_contains vs [] obj = Inr False"
| "list_contains vs (e # es) obj =
     (if e = obj then Inr True
      else err_bind (Vector_eq (vs e) (vs obj)) (\<lambda>eq.
             if eq then Inr True else list_contains vs es obj))"

text \<open>\<open>Scene.add(*objects)\<close>; \<open>self\<close> is the address of the scene.\<close>

fun Scene_add ::
  "nat \<Rightarrow> scene \<Rightarrow> vector_store \<Rightarrow> nat list \<Rightarrow> error + (scene \<times> vector_store)" where
  "Scene_add self sc vs [] = Inr (sc, vs)"
| "Scene_add self sc vs (obj # objs) =
     err_bind (list_contains vs (objects sc) obj) (\<lambda>found.
       if \<not> found
       then Scene_add self (sc\<lparr>objects := objects sc @ [obj]\<rparr>)
              (vs(obj := set_vscene (vs obj) (Some self))) objs
       else Scene_add self sc vs objs)"

definition Scene_add_animation :: "scene \<Rightarrow> nat \<Rightarrow> scene" where
  "Scene_add_animation sc a =
     sc\<lparr>sc_animations := sc_animations sc @ [a],
        original_animations := original_animations sc @ [a]\<rparr>"






section \<open>scene/camera.py: class Camera2D\<close>

record camera2d =
  width :: int
  height :: int
  position :: "real \<times> real"
  zoom :: real
  rotation :: real

definition Camera2D_init :: "int \<Rightarrow> int \<Rightarrow> camera2d" where
  "Camera2D_init w h =
     \<lparr>width = w, height = h, position = (0, 0), zoom = 50, rotation = 0\<rparr>"

definition Camera2D_pan :: "camera2d \<Rightarrow> real \<Rightarrow> real \<Rightarrow> camera2d" where
  "Camera2D_pan cam dx dy =
     cam\<lparr>position := (fst (position cam) - dx / zoom cam, snd (position cam) + dy / zoom cam)\<rparr>"

definition Camera2D_rotate :: "camera2d \<Rightarrow> real \<Rightarrow> camera2d" where
  "Camera2D_rotate cam angle = cam\<lparr>rotation := rotation cam + angle\<rparr>"

definition Camera2D_zoom_by :: "camera2d \<Rightarrow> real \<Rightarrow> (real \<times> real) option \<Rightarrow> camera2d" where
  "Camera2D_zoom_by cam factor center =
     (let old_zoom = zoom cam;
          cam1 = cam\<lparr>zoom := max 5 (min 500 (zoom cam * factor))\<rparr>
      in case center of
           None \<Rightarrow> cam1
         | Some (cx, cy) \<Rightarrow>
             let px = fst (position cam1); py = snd (position cam1);
                 world_x = (cx - real_of_int (width cam1) / 2) / old_zoom + px;
                 world_y = - (cy - real_of_int (height cam1) / 2) / old_zoom + py;
                 new_screen_x = (world_x - px) * zoom cam1 + real_of_int (width cam1) / 2;
                 new_screen_y = - (world_y - py) * zoom cam1 + real_of_int (height cam1) / 2
             in cam1\<lparr>position := (px + (new_screen_x - cx) / zoom cam1,
                                   py - (new_screen_y - cy) / zoom cam1)\<rparr>)"

definition Camera2D_world_to_screen :: "camera2d \<Rightarrow> real \<Rightarrow> real \<Rightarrow> real \<times> real" where
  "Camera2D_world_to_screen cam x y =
     (let p = (if rotation cam \<noteq> 0
               then let c = cos (- rotation cam); s = sin (- rotation cam)
                    in (x * c - y * s, x * s + y * c)
               else (x, y));
          screen_x = (fst p - fst (position cam)) * zoom cam + real_of_int (width cam) / 2;
          screen_y = - (snd p - snd (position cam)) * zoom cam + real_of_int (height cam) / 2
      in (screen_x, screen_y))"

definition Camera2D_screen_to_world :: "camera2d \<Rightarrow> real \<Rightarrow> real \<Rightarrow> real \<times> real" where
  "Camera2D_screen_to_world cam screen_x screen_y =
     (let x = (screen_x - real_of_int (width cam) / 2) / zoom cam + fst (position cam);
          y = - (screen_y - real_of_int (height cam) / 2) / zoom cam + snd (position cam)
      in if rotation cam \<noteq> 0
         then let c = cos (rotation cam); s = sin (rotation cam)
              in (x * c - y * s, x * s + y * c)
         else (x, y))"

section \<open>Well-formed vectors\<close>

text \<open>What \<open>Vector.__init__\<close> establishes and no method changes: the recorded dimension
  is the number of components, and it is 2 or 3.\<close>

definition Vector_ok :: "vector \<Rightarrow> bool" where
  "Vector_ok v = (vdim v = length (components v) \<and> (vdim v = 2 \<or> vdim v = 3))"

section \<open>The scenario of one late animation\<close>

text \<open>
  A played Timeline that holds exactly one animation, the object at address 0, of
  duration 1 and default easing, scheduled at start time 2; and the store in which that
  object is as constructed. \<open>single_timeline\<close> is the general shape: one animation at
  address \<open>a\<close>, start time \<open>s\<close>, playhead \<open>c\<close>, playing.
\<close>

definition late_timeline :: timeline where
  "late_timeline = Timeline_play (Timeline_add_at Timeline_init 2 0)"

definition late_store :: anim_store where
  "late_store = (\<lambda>a. Animation_init 1 None)"

definition single_timeline :: "real \<Rightarrow> nat \<Rightarrow> real \<Rightarrow> timeline" where
  "single_timeline s a c =
     \<lparr>tl_animations = [(s, [a])], current_time = c, is_playing = True, is_finished = False\<rparr>"

section \<open>The scenario of a shared animation\<close>


section \<open>The scenario of three nearby vectors\<close>

text \<open>
  A 2D Scene at address 7 that already shows the vector \<open>(0, 0)\<close>, the object at
  address 0, and two further vectors not yet in any scene: \<open>(8e-9, 0)\<close> at address 1 and
  \<open>(1.6e-8, 0)\<close> at address 2. Every other address holds the zero vector.
\<close>

definition near_store :: vector_store where
  "near_store =
     (\<lambda>a. Vector [0, 0] 2 [0, 0] (1, 3 / 10, 3 / 10, 1) None None None)
       (0 := Vector [0, 0] 2 [0, 0] (1, 3 / 10, 3 / 10, 1) None None (Some 7),
        1 := Vector [8 / 10 ^ 9, 0] 2 [0, 0] (1, 3 / 10, 3 / 10, 1) None None None,
        2 := Vector [16 / 10 ^ 9, 0] 2 [0, 0] (1, 3 / 10, 3 / 10, 1) None None None)"

definition near_scene :: scene where
  "near_scene =
     \<lparr>sc_dim = 2, objects = [0], sc_animations = [], original_animations = [],
      sc_timeline = Timeline_init, running = False, paused = False, step_size = 5 / 100\<rparr>"

section \<open>Basic facts\<close>

lemma err_bind_Inr [simp]: "err_bind (Inr v) f = f v"
  by (simp add: err_bind_def)

lemma err_bind_Inl [simp]: "err_bind (Inl e) f = Inl e"
  by (simp add: err_bind_def)

section \<open>Properties of Animation\<close>

lemma Animation_update_finished: "finished a \<Longrightarrow> Animation_update a dt = a"
  by (simp add: Animation_update_def)

lemma Animation_updates_finished: "finished a \<Longrightarrow> foldl Animation_update a dts = a"
  by (induction dts) (simp_all add: Animation_update_finished)

lemma Animation_progress_total:
  "Animation_progress a =
     Inr (if duration a = 0 then 1 else min 1 (elapsed a / duration a))"
  by (simp add: Animation_progress_def py_div_def)

text \<open>
  Claim C3. For every duration \<open>d > 0\<close> and every easing (given or defaulted, so in
  particular every easing with \<open>f 0 = 0\<close> and \<open>f 1 = 1\<close>): on a fresh Animation one
  \<open>update(d)\<close> makes \<open>progress\<close> exactly 1 and \<open>is_finished\<close> true, and any further
  sequence of \<open>update(dt)\<close> calls, with any values of \<open>dt\<close>, leaves the whole object
  (elapsed time, finished flag, and hence progress) unchanged.
\<close>

theorem C3_update_full_duration:
  assumes "0 < d"
  shows "Animation_progress (Animation_update (Animation_init d e) d) = Inr 1
       \<and> Animation_is_finished (Animation_update (Animation_init d e) d)
       \<and> elapsed (Animation_update (Animation_init d e) d) = d
       \<and> foldl Animation_update (Animation_update (Animation_init d e) d) dts
           = Animation_update (Animation_init d e) d
       \<and> Animation_progress (foldl Animation_update (Animation_update (Animation_init d e) d) dts)
           = Inr 1"
proof -
  let ?a = "Animation_update (Animation_init d e) d"
  have fin: "finished ?a"
    by (simp add: Animation_update_def Animation_init_def Let_def)
  have el: "elapsed ?a = d" and du: "duration ?a = d"
    by (simp_all add: Animation_update_def Animation_init_def Let_def)
  have pr: "Animation_progress ?a = Inr 1"
    using assms by (simp add: Animation_progress_total el du)
  have idem: "foldl Animation_update ?a dts = ?a"
    using fin by (rule Animation_updates_finished)
  show ?thesis
    using fin el pr idem by (simp add: Animation_is_finished_def)
qed

theorem C3_witness:
  "(0::real) < 2
   \<and> Animation_progress (Animation_update (Animation_init 2 (Some Easing_linear)) 2) = Inr 1
   \<and> Animation_is_finished (Animation_update (Animation_init 2 (Some Easing_linear)) 2)
   \<and> foldl Animation_update (Animation_update (Animation_init 2 (Some Easing_linear)) 2)
       [1 / 2, 7]
       = Animation_update (Animation_init 2 (Some Easing_linear)) 2"
  using C3_update_full_duration [of 2 "Some Easing_linear" "[1 / 2, 7]"] by simp

text \<open>
  Claim C6. Whenever \<open>0 \<le> elapsed \<le> duration\<close>, \<open>progress\<close> returns normally: it is
  \<open>elapsed / duration\<close> capped at 1 when the duration is positive, and exactly 1 when
  the duration is 0; the guarded division is never reached with a zero divisor, so no
  \<open>ZeroDivisionError\<close> is raised.
\<close>

theorem C6_progress_saturates:
  assumes "0 \<le> elapsed a" and "elapsed a \<le> duration a"
  shows "(0 < duration a \<longrightarrow>
            Animation_progress a = Inr (min 1 (elapsed a / duration a))
          \<and> Animation_progress a = Inr (elapsed a / duration a))
       \<and> (duration a = 0 \<longrightarrow> Animation_progress a = Inr 1)
       \<and> Animation_progress a \<noteq> Inl ZeroDivisionError"
  using assms by (auto simp add: Animation_progress_total min_def)

theorem C6_witness:
  "Animation_progress \<lparr>duration = 4, easing = Easing_linear, elapsed = 1, finished = False\<rparr>
     = Inr (1 / 4)
   \<and> Animation_progress \<lparr>duration = 0, easing = Easing_linear, elapsed = 0, finished = False\<rparr>
     = Inr 1"
  using C6_progress_saturates
          [of "\<lparr>duration = 4, easing = Easing_linear, elapsed = 1, finished = False\<rparr>"]
        C6_progress_saturates
          [of "\<lparr>duration = 0, easing = Easing_linear, elapsed = 0, finished = False\<rparr>"]
  by simp

section \<open>Properties of Vector\<close>

lemma Vector_init_ok: "Vector_init cs org = Inr v \<Longrightarrow> Vector_ok v"
  by (auto simp add: Vector_init_def Vector_ok_def split: if_splits)

lemma Vector_init_fresh:
  "Vector_init cs org = Inr v \<Longrightarrow>
     previous_state v = None \<and> pending_animation v = None \<and> vscene v = None
     \<and> components v = cs \<and> vdim v = length cs"
  by (auto simp add: Vector_init_def split: if_splits)

lemma Vector_animate_no_previous: "previous_state v = None \<Longrightarrow> Vector_animate v d = v"
  by (simp add: Vector_animate_def)

lemma Vector_at_previous_state: "previous_state (Vector_at v org) = previous_state v"
  by (simp add: Vector_at_def set_origin_def)

lemma set_color_previous_state: "previous_state (set_color v c) = previous_state v"
  by (simp add: set_color_def)

lemma set_vscene_previous_state: "previous_state (set_vscene v s) = previous_state v"
  by (simp add: set_vscene_def)

text \<open>
  Claim C10. On any vector with no previous state recorded, whatever its components,
  origin, colour, scene and pending animation, \<open>animate(duration)\<close> returns the vector
  itself unchanged, for every duration: in particular its pending animation is what it
  was. A vector that comes from the constructor is such a vector, with no pending
  animation, and \<open>at\<close>, a change of colour and the addition to a scene keep it one
  (\<open>Vector_at_previous_state\<close>, \<open>set_color_previous_state\<close>,
  \<open>set_vscene_previous_state\<close>).
\<close>

theorem C10_animate_no_previous_state:
  "(previous_state v = None \<longrightarrow>
      Vector_animate v d = v
    \<and> pending_animation (Vector_animate v d) = pending_animation v)
   \<and> (Vector_init cs org = Inr w \<longrightarrow>
      previous_state w = None
    \<and> Vector_animate w d = w
    \<and> pending_animation (Vector_animate w d) = None)"
proof (intro conjI impI)
  assume "previous_state v = None"
  then show "Vector_animate v d = v"
    and "pending_animation (Vector_animate v d) = pending_animation v"
    by (simp_all add: Vector_animate_no_previous)
next
  assume w: "Vector_init cs org = Inr w"
  from Vector_init_fresh [OF w]
  show "previous_state w = None" and "Vector_animate w d = w"
    and "pending_animation (Vector_animate w d) = None"
    by (simp_all add: Vector_animate_no_previous)
qed

theorem C10_witness:
  "Vector_animate (Vector [3, 4] 2 [1, 1] (0, 0, 1, 1) None None (Some 7)) 7
     = Vector [3, 4] 2 [1, 1] (0, 0, 1, 1) None None (Some 7)
   \<and> Vector_init [3, 4] None
       = Inr (Vector [3, 4] 2 [0, 0] (1, 3 / 10, 3 / 10, 1) None None None)
   \<and> Vector_animate (Vector [3, 4] 2 [0, 0] (1, 3 / 10, 3 / 10, 1) None None None) (1 / 2)
       = Vector [3, 4] 2 [0, 0] (1, 3 / 10, 3 / 10, 1) None None None"
proof -
  have h: "Vector_init [3, 4] None
             = Inr (Vector [3, 4] 2 [0, 0] (1, 3 / 10, 3 / 10, 1) None None None)"
    by (simp add: Vector_init_def np_zeros_def numeral_2_eq_2)
  have p: "previous_state (Vector [3, 4] 2 [1, 1] (0, 0, 1, 1) None None (Some 7)) = None"
    by simp
  show ?thesis
    using h p
      C10_animate_no_previous_state
        [where v = "Vector [3, 4] 2 [1, 1] (0, 0, 1, 1) None None (Some 7)" and d = 7
           and cs = "[3, 4]" and org = None
           and w = "Vector [3, 4] 2 [0, 0] (1, 3 / 10, 3 / 10, 1) None None None"]
      C10_animate_no_previous_state
        [where v = "Vector [3, 4] 2 [1, 1] (0, 0, 1, 1) None None (Some 7)" and d = "1 / 2"
           and cs = "[3, 4]" and org = None
           and w = "Vector [3, 4] 2 [0, 0] (1, 3 / 10, 3 / 10, 1) None None None"]
    by simp
qed

section \<open>Properties of Camera2D\<close>

lemma rotate_back:
  fixes r :: real
  shows "(x * cos r + y * sin r) * cos r - (y * cos r - x * sin r) * sin r = x"
    and "(x * cos r + y * sin r) * sin r + (y * cos r - x * sin r) * cos r = y"
proof -
  have k: "a * (cos r * cos r) + a * (sin r * sin r) = a" for a :: real
    by (simp add: distrib_left [symmetric])
  show "(x * cos r + y * sin r) * cos r - (y * cos r - x * sin r) * sin r = x"
    by (simp add: algebra_simps k)
  show "(x * cos r + y * sin r) * sin r + (y * cos r - x * sin r) * cos r = y"
    by (simp add: algebra_simps k)
qed

text \<open>
  Claim C8. For a 2D camera with any viewport, any position, any rotation and a zoom in
  \<open>[5, 500]\<close>, mapping a world point to the screen and back returns the point, exactly,
  over the reals.
\<close>

theorem C8_camera_round_trip:
  assumes "5 \<le> zoom cam" and "zoom cam \<le> 500"
  shows "Camera2D_screen_to_world cam
           (fst (Camera2D_world_to_screen cam x y))
           (snd (Camera2D_world_to_screen cam x y)) = (x, y)"
proof -
  have z: "zoom cam \<noteq> 0" using assms by simp
  show ?thesis
  proof (cases "rotation cam = 0")
    case True
    then show ?thesis
      using z by (simp add: Camera2D_screen_to_world_def Camera2D_world_to_screen_def Let_def)
  next
    case False
    then show ?thesis
      using z rotate_back [of x "rotation cam" y]
      by (simp add: Camera2D_screen_to_world_def Camera2D_world_to_screen_def Let_def)
  qed
qed

theorem C8_witness:
  "Camera2D_screen_to_world
     \<lparr>width = 800, height = 600, position = (1, 2), zoom = 50, rotation = pi\<rparr>
     (fst (Camera2D_world_to_screen
        \<lparr>width = 800, height = 600, position = (1, 2), zoom = 50, rotation = pi\<rparr> 3 4))
     (snd (Camera2D_world_to_screen
        \<lparr>width = 800, height = 600, position = (1, 2), zoom = 50, rotation = pi\<rparr> 3 4))
   = (3, 4)"
  using C8_camera_round_trip
    [of "\<lparr>width = 800, height = 600, position = (1, 2), zoom = 50, rotation = pi\<rparr>" 3 4]
  by simp

section \<open>Properties of the binary Vector operations\<close>

lemma np_add_same: "length a = length b \<Longrightarrow> np_add a b = Inr (map (\<lambda>(x, y). x + y) (zip a b))"
  by (simp add: np_add_def np_broadcast_def)

lemma np_sub_same: "length a = length b \<Longrightarrow> np_sub a b = Inr (map (\<lambda>(x, y). x - y) (zip a b))"
  by (simp add: np_sub_def np_broadcast_def)

lemma np_dot_same: "length a = length b \<Longrightarrow> np_dot a b = Inr (sum_list (map (\<lambda>(x, y). x * y) (zip a b)))"
  by (simp add: np_dot_def)

lemma Vector_init_total:
  "length cs = 2 \<or> length cs = 3 \<Longrightarrow>
     \<exists>v. Vector_init cs org = Inr v \<and> vdim v = length cs \<and> components v = cs"
  by (auto simp add: Vector_init_def)

lemma Vector_copy_total:
  assumes "Vector_ok self"
  shows "\<exists>c. Vector_copy self = Inr c"
proof -
  have "length (components self) = 2 \<or> length (components self) = 3"
    using assms by (auto simp add: Vector_ok_def)
  from Vector_init_total [OF this, of "Some (origin self)"]
  show ?thesis by (auto simp add: Vector_copy_def)
qed

lemma derived_total:
  assumes "Vector_ok self" and "length cs = vdim self"
  shows "\<exists>r. derived self cs = Inr r \<and> vdim r = vdim self \<and> components r = cs"
proof -
  have len: "length cs = 2 \<or> length cs = 3"
    using assms by (auto simp add: Vector_ok_def)
  from Vector_init_total [OF len, of "Some (origin self)"]
  obtain v where v: "Vector_init cs (Some (origin self)) = Inr v"
    "vdim v = length cs" "components v = cs" by blast
  from Vector_copy_total [OF assms(1)] obtain c where c: "Vector_copy self = Inr c" by blast
  show ?thesis
    using v c assms(2)
    by (simp add: derived_def set_vscene_def set_previous_state_def set_color_def)
qed

text \<open>
  Claim C7. For well-formed vectors, each of \<open>add\<close>, \<open>subtract\<close>, \<open>dot\<close>,
  \<open>project_onto\<close> and \<open>angle_with\<close> raises \<open>ValueError\<close> when the dimensions of the
  two operands differ, and returns normally when they agree; a vector it returns has the
  operands' dimension.
\<close>

theorem C7_dimension_check:
  assumes "Vector_ok u" and "Vector_ok w"
  shows "(vdim u \<noteq> vdim w \<longrightarrow>
            Vector_add u w = Inl ValueError
          \<and> Vector_subtract u w = Inl ValueError
          \<and> Vector_dot u w = Inl ValueError
          \<and> Vector_project_onto u w = Inl ValueError
          \<and> Vector_angle_with u w = Inl ValueError)
       \<and> (vdim u = vdim w \<longrightarrow>
            (\<exists>r. Vector_add u w = Inr r \<and> vdim r = vdim u)
          \<and> (\<exists>r. Vector_subtract u w = Inr r \<and> vdim r = vdim u)
          \<and> (\<exists>x. Vector_dot u w = Inr x)
          \<and> (\<exists>r. Vector_project_onto u w = Inr r \<and> vdim r = vdim u)
          \<and> (\<exists>x. Vector_angle_with u w = Inr x))"
proof (intro conjI impI)
  assume "vdim u \<noteq> vdim w"
  then show "Vector_add u w = Inl ValueError" "Vector_subtract u w = Inl ValueError"
    "Vector_dot u w = Inl ValueError" "Vector_project_onto u w = Inl ValueError"
    "Vector_angle_with u w = Inl ValueError"
    by (simp_all add: Vector_add_def Vector_subtract_def Vector_dot_def
          Vector_project_onto_def Vector_angle_with_def)
next
  assume eq: "vdim u = vdim w"
  have lu: "length (components u) = vdim u" and lw: "length (components w) = vdim u"
    using assms eq by (auto simp add: Vector_ok_def)
  have same: "length (components u) = length (components w)"
    using lu lw by simp
  have d23: "vdim u = 2 \<or> vdim u = 3"
    using assms(1) by (auto simp add: Vector_ok_def)
  show "\<exists>r. Vector_add u w = Inr r \<and> vdim r = vdim u"
    using derived_total [OF assms(1), of "map (\<lambda>(x, y). x + y) (zip (components u) (components w))"]
      eq lu lw
    by (auto simp add: Vector_add_def np_add_same [OF same])
  show "\<exists>r. Vector_subtract u w = Inr r \<and> vdim r = vdim u"
    using derived_total [OF assms(1), of "map (\<lambda>(x, y). x - y) (zip (components u) (components w))"]
      eq lu lw
    by (auto simp add: Vector_subtract_def np_sub_same [OF same])
  show "\<exists>x. Vector_dot u w = Inr x"
    using eq by (simp add: Vector_dot_def np_dot_same [OF same])
  show "\<exists>x. Vector_angle_with u w = Inr x"
    using eq by (simp add: Vector_angle_with_def np_dot_same [OF same])
  show "\<exists>r. Vector_project_onto u w = Inr r \<and> vdim r = vdim u"
  proof (cases "sum_list (map (\<lambda>(x, y). x * y) (zip (components w) (components w))) < 1 / 10 ^ 10")
    case True
    have "length (np_zeros (vdim u)) = 2 \<or> length (np_zeros (vdim u)) = 3"
      using d23 by (simp add: np_zeros_def)
    from Vector_init_total [OF this, of None] True eq show ?thesis
      by (auto simp add: Vector_project_onto_def np_dot_same np_zeros_def)
  next
    case False
    let ?cs = "np_scale
       (sum_list (map (\<lambda>(x, y). x * y) (zip (components u) (components w)))
        / sum_list (map (\<lambda>(x, y). x * y) (zip (components w) (components w))))
       (components w)"
    have "length ?cs = vdim u" using lw by (simp add: np_scale_def)
    from derived_total [OF assms(1) this] False eq show ?thesis
      by (auto simp add: Vector_project_onto_def np_dot_same [OF same] np_dot_same)
  qed
qed

theorem C7_witness:
  "Vector_add (Vector [1, 2] 2 [0, 0] (1, 3 / 10, 3 / 10, 1) None None None)
              (Vector [1, 2, 3] 3 [0, 0, 0] (1, 3 / 10, 3 / 10, 1) None None None)
     = Inl ValueError
   \<and> Vector_angle_with (Vector [1, 2] 2 [0, 0] (1, 3 / 10, 3 / 10, 1) None None None)
              (Vector [1, 2, 3] 3 [0, 0, 0] (1, 3 / 10, 3 / 10, 1) None None None)
     = Inl ValueError
   \<and> (\<exists>r. Vector_add (Vector [1, 2] 2 [0, 0] (1, 3 / 10, 3 / 10, 1) None None None)
              (Vector [5, 7] 2 [1, 1] (1, 3 / 10, 3 / 10, 1) None None None) = Inr r
          \<and> vdim r = 2)
   \<and> (\<exists>x. Vector_dot (Vector [1, 2] 2 [0, 0] (1, 3 / 10, 3 / 10, 1) None None None)
              (Vector [5, 7] 2 [1, 1] (1, 3 / 10, 3 / 10, 1) None None None) = Inr x)"
proof -
  let ?u = "Vector [1, 2] 2 [0, 0] (1, 3 / 10, 3 / 10, 1) None None None"
  let ?w3 = "Vector [1, 2, 3] 3 [0, 0, 0] (1, 3 / 10, 3 / 10, 1) None None None"
  let ?w2 = "Vector [5, 7] 2 [1, 1] (1, 3 / 10, 3 / 10, 1) None None None"
  have u: "Vector_ok ?u" and w3: "Vector_ok ?w3" and w2: "Vector_ok ?w2"
    by (simp_all add: Vector_ok_def)
  show ?thesis
    using C7_dimension_check [OF u w3] C7_dimension_check [OF u w2] by simp
qed

section \<open>Properties of VectorAnimation\<close>

lemma interp_zero:
  "length a = length b \<Longrightarrow>
     map (\<lambda>(x, y). x + y) (zip a (np_scale 0 (map (\<lambda>(x, y). x - y) (zip b a)))) = a"
  by (induction a b rule: list_induct2) (simp_all add: np_scale_def)

lemma interp_one:
  "length a = length b \<Longrightarrow>
     map (\<lambda>(x, y). x + y) (zip a (np_scale 1 (map (\<lambda>(x, y). x - y) (zip b a)))) = b"
  by (induction a b rule: list_induct2) (simp_all add: np_scale_def)

lemma np_lerp_zero:
  assumes "length a = length b"
  shows "err_bind (np_sub b a) (\<lambda>d. np_add a (np_scale 0 d)) = Inr a"
proof -
  have "length a = length (np_scale 0 (map (\<lambda>(x, y). x - y) (zip b a)))"
    using assms by (simp add: np_scale_def)
  then show ?thesis
    using assms by (simp add: np_sub_same np_add_same interp_zero)
qed

lemma np_lerp_one:
  assumes "length a = length b"
  shows "err_bind (np_sub b a) (\<lambda>d. np_add a (np_scale 1 d)) = Inr b"
proof -
  have "length a = length (np_scale 1 (map (\<lambda>(x, y). x - y) (zip b a)))"
    using assms by (simp add: np_scale_def)
  then show ?thesis
    using assms by (simp add: np_sub_same np_add_same interp_one)
qed

lemma get_value_at:
  assumes "Animation_eased_progress (anim va) = Inr t"
  shows "VectorAnimation_get_value va =
     err_bind (err_bind (np_sub (components (end_v va)) (components (start va)))
                 (\<lambda>dc. np_add (components (start va)) (np_scale t dc))) (\<lambda>comps.
     err_bind (err_bind (np_sub (origin (end_v va)) (origin (start va)))
                 (\<lambda>dorg. np_add (origin (start va)) (np_scale t dorg))) (\<lambda>org.
       Inr (comps, org)))"
  using assms by (simp add: VectorAnimation_get_value_def err_bind_def split: sum.splits)

lemma VectorAnimation_updates_keep:
  "start (foldl VectorAnimation_update va dts) = start va
   \<and> end_v (foldl VectorAnimation_update va dts) = end_v va
   \<and> duration (anim (foldl VectorAnimation_update va dts)) = duration (anim va)
   \<and> easing (anim (foldl VectorAnimation_update va dts)) = easing (anim va)"
proof (induction dts arbitrary: va)
  case Nil
  show ?case by simp
next
  case (Cons dt dts)
  have "start (VectorAnimation_update va dt) = start va"
       "end_v (VectorAnimation_update va dt) = end_v va"
       "duration (anim (VectorAnimation_update va dt)) = duration (anim va)"
       "easing (anim (VectorAnimation_update va dt)) = easing (anim va)"
    by (simp_all add: VectorAnimation_update_def Animation_update_def Let_def)
  with Cons.IH [of "VectorAnimation_update va dt"] show ?case by simp
qed

lemma get_value_end:
  assumes "0 < duration (anim va)" and "elapsed (anim va) = duration (anim va)"
    and "easing (anim va) 1 = 1"
    and "length (components (start va)) = length (components (end_v va))"
    and "length (origin (start va)) = length (origin (end_v va))"
  shows "VectorAnimation_get_value va = Inr (components (end_v va), origin (end_v va))"
proof -
  have "Animation_eased_progress (anim va) = Inr 1"
    using assms(1,2,3) by (simp add: Animation_eased_progress_def Animation_progress_total)
  from get_value_at [OF this] show ?thesis
    using assms(4,5) by (simp add: np_lerp_one)
qed

lemma get_value_start:
  assumes "0 < duration (anim va)" and "elapsed (anim va) = 0"
    and "easing (anim va) 0 = 0"
    and "length (components (start va)) = length (components (end_v va))"
    and "length (origin (start va)) = length (origin (end_v va))"
  shows "VectorAnimation_get_value va = Inr (components (start va), origin (start va))"
proof -
  have "Animation_eased_progress (anim va) = Inr 0"
    using assms(1,2,3) by (simp add: Animation_eased_progress_def Animation_progress_total)
  from get_value_at [OF this] show ?thesis
    using assms(4,5) by (simp add: np_lerp_zero)
qed

text \<open>
  The endpoints of the interpolation over exact real arithmetic. For vectors of equal
  dimension whose origins have equal length, a duration \<open>d > 0\<close> and an easing with
  \<open>f 0 = 0\<close> and \<open>f 1 = 1\<close>, the real-valued \<open>start + t * (end - start)\<close> is the start
  at elapsed time 0 and the end at elapsed time \<open>d\<close>. This is a fact about the reals
  only. The program computes in float64, where \<open>end - start\<close> and the sum are each
  rounded: from start \<open>0.2\<close> to end \<open>0.9\<close> it returns \<open>0.8999999999999999\<close> at elapsed
  time \<open>d\<close>, and a difference that overflows gives NaN even at elapsed time 0. Whether
  the program returns the end vector exactly is therefore not decided by this lemma.
\<close>

lemma get_value_endpoints_over_reals:
  assumes "0 < d" and "f 0 = 0" and "f 1 = 1"
    and "Vector_ok v1" and "Vector_ok v2" and "vdim v1 = vdim v2"
    and "length (origin v1) = length (origin v2)"
  shows "VectorAnimation_get_value (VectorAnimation_init v1 v2 d (Some f))
           = Inr (components v1, origin v1)
       \<and> VectorAnimation_get_value
             (VectorAnimation_update (VectorAnimation_init v1 v2 d (Some f)) d)
           = Inr (components v2, origin v2)
       \<and> (elapsed (anim (foldl VectorAnimation_update (VectorAnimation_init v1 v2 d (Some f)) dts))
             = d \<longrightarrow>
           VectorAnimation_get_value
             (foldl VectorAnimation_update (VectorAnimation_init v1 v2 d (Some f)) dts)
           = Inr (components v2, origin v2))"
proof -
  let ?va = "VectorAnimation_init v1 v2 d (Some f)"
  have lc: "length (components v1) = length (components v2)"
    using assms(4,5,6) by (auto simp add: Vector_ok_def)
  have init: "start ?va = v1" "end_v ?va = v2" "duration (anim ?va) = d"
    "easing (anim ?va) = f" "elapsed (anim ?va) = 0"
    by (simp_all add: VectorAnimation_init_def Animation_init_def)
  have first: "VectorAnimation_get_value ?va = Inr (components v1, origin v1)"
    using get_value_start [of ?va] assms(1,2,7) lc init by simp
  have one: "VectorAnimation_get_value (VectorAnimation_update ?va d)
               = Inr (components v2, origin v2)"
    using get_value_end [of "VectorAnimation_update ?va d"] assms(1,3,7) lc
    by (simp add: VectorAnimation_update_def VectorAnimation_init_def Animation_init_def
          Animation_update_def Let_def)
  have many: "VectorAnimation_get_value (foldl VectorAnimation_update ?va dts)
               = Inr (components v2, origin v2)"
    if "elapsed (anim (foldl VectorAnimation_update ?va dts)) = d"
    using get_value_end [of "foldl VectorAnimation_update ?va dts"] that
      VectorAnimation_updates_keep [of ?va dts] assms(1,3,7) lc init
    by simp
  show ?thesis using first one many by blast
qed

text \<open>
  The constructor accepts an origin of any length. For two vectors of equal dimension
  with origins of lengths 2 and 3 the subtraction of the origins cannot be broadcast:
  \<open>get_value\<close> raises \<open>ValueError\<close>.
\<close>

lemma get_value_origin_mismatch:
  "Vector_init [1, 2] None
     = Inr (Vector [1, 2] 2 [0, 0] (1, 3 / 10, 3 / 10, 1) None None None)
   \<and> Vector_init [3, 4] (Some [0, 0, 0])
     = Inr (Vector [3, 4] 2 [0, 0, 0] (1, 3 / 10, 3 / 10, 1) None None None)
   \<and> vdim (Vector [1, 2] 2 [0, 0] (1, 3 / 10, 3 / 10, 1) None None None)
     = vdim (Vector [3, 4] 2 [0, 0, 0] (1, 3 / 10, 3 / 10, 1) None None None)
   \<and> VectorAnimation_get_value
       (VectorAnimation_init
          (Vector [1, 2] 2 [0, 0] (1, 3 / 10, 3 / 10, 1) None None None)
          (Vector [3, 4] 2 [0, 0, 0] (1, 3 / 10, 3 / 10, 1) None None None) 1
          (Some Easing_linear))
     = Inl ValueError"
  by (simp add: Vector_init_def np_zeros_def numeral_2_eq_2 VectorAnimation_get_value_def
        VectorAnimation_init_def Animation_init_def Animation_eased_progress_def
        Animation_progress_total np_sub_def np_add_def np_broadcast_def np_scale_def)

section \<open>Properties of Timeline: the late animation\<close>

lemmas timeline_eval =
  Timeline_update_def Timeline_play_def Timeline_add_at_def Timeline_init_def
  Timeline_duration_def Timeline_get_active_animations_def
  Animation_update_def Animation_init_def Animation_is_finished_def Let_def

lemma late_timeline_eq: "late_timeline = single_timeline 2 0 0"
  by (simp add: late_timeline_def single_timeline_def timeline_eval)

lemma single_not_started:
  assumes "c + dt < s"
  shows "\<exists>T. Timeline_update (single_timeline s a c) st dt = Inr (T, st)"
  using assms by (simp add: single_timeline_def timeline_eval)

lemma single_started:
  assumes "s \<le> c + dt" and "\<not> finished (st a)"
  shows "\<exists>T. Timeline_update (single_timeline s a c) st dt
               = Inr (T, st(a := Animation_update (st a) dt))"
  using assms by (simp add: single_timeline_def timeline_eval)

lemma late_step1:
  "Timeline_update late_timeline late_store 1 = Inr (single_timeline 2 0 1, late_store)"
  by (simp add: late_timeline_eq single_timeline_def late_store_def timeline_eval)

lemma late_step2:
  "Timeline_update (single_timeline 2 0 1) late_store 1
     = Inr (single_timeline 2 0 2,
            late_store(0 := (late_store 0)\<lparr>elapsed := 1, finished := True\<rparr>))"
  by (simp add: single_timeline_def late_store_def timeline_eval)

lemma late_step3:
  "Timeline_update (single_timeline 2 0 2)
       (late_store(0 := (late_store 0)\<lparr>elapsed := 1, finished := True\<rparr>)) 1
     = Inr ((single_timeline 2 0 3)\<lparr>is_finished := True, is_playing := False\<rparr>,
            late_store(0 := (late_store 0)\<lparr>elapsed := 1, finished := True\<rparr>))"
  by (simp add: single_timeline_def late_store_def timeline_eval)

text \<open>
  Claim C1 (amended). On the played Timeline with one animation of duration 1 scheduled at
  time 2: the first \<open>update(1)\<close> (playhead 1) leaves the animation untouched; the second
  (playhead 2) makes it eligible and advances it by the whole \<open>dt = 1\<close> of that tick, so
  its elapsed time is 1, it is finished and no longer active, while the Timeline is still
  playing and not finished (its duration is 3); the third (playhead 3) leaves the
  animation exactly finished and sets the Timeline's \<open>is_finished\<close>. In general, for a
  Timeline with a single animation, an update that leaves the playhead before the start
  time does not touch the animation, and an update that brings the playhead to or past
  the start time advances an unfinished animation by the full \<open>dt\<close>, whatever the
  playhead was: \<open>dt\<close> is neither pro-rated nor applied retroactively.
\<close>

theorem C1_late_animation:
  "Timeline_updates late_timeline late_store [1] = Inr (single_timeline 2 0 1, late_store)
   \<and> Timeline_updates late_timeline late_store [1, 1]
       = Inr (single_timeline 2 0 2,
              late_store(0 := (late_store 0)\<lparr>elapsed := 1, finished := True\<rparr>))
   \<and> duration (late_store 0) = 1
   \<and> Timeline_get_active_animations (single_timeline 2 0 2)
         (late_store(0 := (late_store 0)\<lparr>elapsed := 1, finished := True\<rparr>)) = []
   \<and> Timeline_duration (single_timeline 2 0 2)
         (late_store(0 := (late_store 0)\<lparr>elapsed := 1, finished := True\<rparr>)) = Inr 3
   \<and> Timeline_updates late_timeline late_store [1, 1, 1]
       = Inr ((single_timeline 2 0 3)\<lparr>is_finished := True, is_playing := False\<rparr>,
              late_store(0 := (late_store 0)\<lparr>elapsed := 1, finished := True\<rparr>))
   \<and> (c + dt < s \<longrightarrow>
         (\<exists>T. Timeline_update (single_timeline s a c) st dt = Inr (T, st)))
   \<and> (s \<le> c + dt \<and> \<not> finished (st a) \<longrightarrow>
         (\<exists>T. Timeline_update (single_timeline s a c) st dt
                = Inr (T, st(a := Animation_update (st a) dt))))"
proof -
  have d: "duration (late_store 0) = 1"
    by (simp add: late_store_def Animation_init_def)
  have act: "Timeline_get_active_animations (single_timeline 2 0 2)
         (late_store(0 := (late_store 0)\<lparr>elapsed := 1, finished := True\<rparr>)) = []"
    by (simp add: single_timeline_def timeline_eval)
  have dur: "Timeline_duration (single_timeline 2 0 2)
         (late_store(0 := (late_store 0)\<lparr>elapsed := 1, finished := True\<rparr>)) = Inr 3"
    by (simp add: single_timeline_def late_store_def timeline_eval)
  show ?thesis
    using d act dur single_not_started [of c dt s a st] single_started [of s c dt st a]
    by (simp add: late_step1 late_step2 late_step3)
qed

theorem C1_witness:
  "(\<exists>T. Timeline_update (single_timeline 2 0 0) late_store (3 / 2) = Inr (T, late_store))
   \<and> (\<exists>T. Timeline_update (single_timeline 2 0 (3 / 2)) late_store (3 / 2)
            = Inr (T, late_store(0 := Animation_update (late_store 0) (3 / 2))))"
proof -
  have nf: "\<not> finished (late_store 0)"
    by (simp add: late_store_def Animation_init_def)
  show ?thesis
    using C1_late_animation [where c = 0 and dt = "3 / 2" and s = 2 and a = 0 and st = late_store]
      C1_late_animation [where c = "3 / 2" and dt = "3 / 2" and s = 2 and a = 0 and st = late_store]
      nf
    by simp
qed

text \<open>
  The claim as stated has the animation at elapsed time 0 after the second update. The
  code has advanced it by then: its elapsed time is 1 and it is finished.
\<close>

theorem C1_counterexample:
  "Timeline_updates late_timeline late_store [1, 1]
     = Inr (single_timeline 2 0 2,
            late_store(0 := (late_store 0)\<lparr>elapsed := 1, finished := True\<rparr>))
   \<and> elapsed ((late_store(0 := (late_store 0)\<lparr>elapsed := 1, finished := True\<rparr>)) 0) \<noteq> 0
   \<and> finished ((late_store(0 := (late_store 0)\<lparr>elapsed := 1, finished := True\<rparr>)) 0)"
  by (simp add: late_step1 late_step2)

section \<open>Properties of Scene playback\<close>



lemma err_map_total:
  "list_all (\<lambda>x. \<exists>y. f x = Inr y) xs \<Longrightarrow>
     \<exists>ys. err_map f xs = Inr ys \<and> length ys = length xs"
  by (induction xs) auto

lemma py_max_total: "xs \<noteq> [] \<Longrightarrow> \<exists>m. py_max xs = Inr m"
  by (cases xs) simp_all

lemma bucket_ends_total:
  "list_all (\<lambda>(t, anims). anims \<noteq> []) d \<Longrightarrow>
     \<exists>ys. err_map (\<lambda>(t, anims).
                   err_bind (py_max (map (\<lambda>a. duration (st a)) anims)) (\<lambda>m. Inr (t + m))) d
            = Inr ys \<and> length ys = length d"
proof (rule err_map_total)
  assume ne: "list_all (\<lambda>(t, anims). anims \<noteq> []) d"
  show "list_all (\<lambda>x. \<exists>y. (case x of (t, anims) \<Rightarrow>
           err_bind (py_max (map (\<lambda>a. duration (st a)) anims)) (\<lambda>m. Inr (t + m))) = Inr y) d"
    unfolding list_all_iff
  proof
    fix x assume x: "x \<in> set d"
    obtain t anims where b: "x = (t, anims)" by (cases x)
    have "anims \<noteq> []" using ne x b by (auto simp add: list_all_iff)
    then obtain m where "py_max (map (\<lambda>a. duration (st a)) anims) = Inr m"
      using py_max_total [of "map (\<lambda>a. duration (st a)) anims"] by auto
    then show "\<exists>y. (case x of (t, anims) \<Rightarrow>
           err_bind (py_max (map (\<lambda>a. duration (st a)) anims)) (\<lambda>m. Inr (t + m))) = Inr y"
      using b by simp
  qed
qed

lemma Timeline_duration_total:
  assumes "list_all (\<lambda>(t, anims). anims \<noteq> []) (tl_animations tline)"
  shows "\<exists>d. Timeline_duration tline st = Inr d"
proof (cases "tl_animations tline = []")
  case True
  then show ?thesis by (simp add: Timeline_duration_def)
next
  case False
  from bucket_ends_total [OF assms, of st] obtain ys where
    ys: "err_map (\<lambda>(t, anims).
           err_bind (py_max (map (\<lambda>a. duration (st a)) anims)) (\<lambda>m. Inr (t + m)))
           (tl_animations tline) = Inr ys" "length ys = length (tl_animations tline)"
    by blast
  have "ys \<noteq> []" using ys(2) False by auto
  from py_max_total [OF this] show ?thesis
    using ys(1) False by (simp add: Timeline_duration_def)
qed

lemma Timeline_update_total:
  assumes "list_all (\<lambda>(t, anims). anims \<noteq> []) (tl_animations tline)"
  shows "\<exists>T st'. Timeline_update tline st dt = Inr (T, st')
            \<and> tl_animations T = tl_animations tline"
proof (cases "\<not> is_playing tline \<or> is_finished tline")
  case True
  then show ?thesis by (simp add: Timeline_update_def)
next
  case False
  let ?T = "tline\<lparr>current_time := current_time tline + dt\<rparr>"
  let ?r = "update_buckets (current_time ?T) dt (tl_animations ?T) (st, True)"
  have "list_all (\<lambda>(t, anims). anims \<noteq> []) (tl_animations ?T)"
    using assms by simp
  from Timeline_duration_total [OF this, of "fst ?r"] obtain d where
    d: "Timeline_duration ?T (fst ?r) = Inr d" by blast
  show ?thesis
    using False d by (simp add: Timeline_update_def Let_def)
qed













section \<open>Properties of Scene.add\<close>

lemma np_broadcast_length:
  assumes "np_broadcast a b = Inr ps" and "length b = length b'"
  shows "\<exists>ps'. np_broadcast a b' = Inr ps'"
  using assms by (auto simp add: np_broadcast_def split: if_splits)

lemma np_allclose_length:
  assumes "np_allclose a b = Inr x" and "length b = length b'"
  shows "\<exists>y. np_allclose a b' = Inr y"
proof -
  from assms(1) obtain ps where "np_broadcast a b = Inr ps"
    by (cases "np_broadcast a b") (simp_all add: np_allclose_def)
  from np_broadcast_length [OF this assms(2)] show ?thesis
    by (auto simp add: np_allclose_def)
qed

lemma list_contains_miss:
  assumes "list_contains vs (e # es) obj = Inr False"
  shows "e \<noteq> obj \<and> Vector_eq (vs e) (vs obj) = Inr False \<and> list_contains vs es obj = Inr False"
  using assms
  by (cases "Vector_eq (vs e) (vs obj)") (auto split: if_splits)

lemma list_contains_later:
  assumes "list_contains vs es u = Inr False"
    and "\<And>x. components (vt x) = components (vs x)"
    and "u \<noteq> v"
    and "length (components (vs u)) = length (components (vs v))"
    and "Vector_eq (vs u) (vs v) = Inr True"
  shows "list_contains vt (es @ [u]) v = Inr True"
  using assms(1)
proof (induction es)
  case Nil
  have "Vector_eq (vt u) (vt v) = Inr True"
    using assms(2,5) by (simp add: Vector_eq_def)
  then show ?case using assms(3) by simp
next
  case (Cons e es)
  from list_contains_miss [OF Cons.prems]
  have eu: "Vector_eq (vs e) (vs u) = Inr False" and rest: "list_contains vs es u = Inr False"
    by simp_all
  from np_allclose_length [OF eu [unfolded Vector_eq_def] assms(4)]
  obtain y where "np_allclose (components (vs e)) (components (vs v)) = Inr y" by blast
  then have ev: "Vector_eq (vt e) (vt v) = Inr y"
    using assms(2) by (simp add: Vector_eq_def)
  show ?case
    using ev Cons.IH [OF rest] by simp
qed

text \<open>
  Claim C9 (amended). Let \<open>u\<close> and \<open>v\<close> be distinct vector objects of equal dimension
  with \<open>u == v\<close> (their components are close; origins and colours play no part), and
  let \<open>s.add(u)\<close> append \<open>u\<close>: no object already in the scene is \<open>u\<close> or compares
  equal to it, as in an empty scene. Then \<open>s.add(u)\<close> appends \<open>u\<close> and sets its scene,
  and the following \<open>s.add(v)\<close> changes nothing: the object list is the same and \<open>v\<close>,
  its scene pointer included, is as before. The same holds for the single call
  \<open>s.add(u, v)\<close>.
\<close>

theorem C9_add_deduplicates_by_value:
  assumes "list_contains vs (objects sc) u = Inr False"
    and "u \<noteq> v"
    and "Vector_ok (vs u)" and "Vector_ok (vs v)" and "vdim (vs u) = vdim (vs v)"
    and "Vector_eq (vs u) (vs v) = Inr True"
  shows "Scene_add self sc vs [u]
           = Inr (sc\<lparr>objects := objects sc @ [u]\<rparr>, vs(u := set_vscene (vs u) (Some self)))
       \<and> Scene_add self (sc\<lparr>objects := objects sc @ [u]\<rparr>)
             (vs(u := set_vscene (vs u) (Some self))) [v]
           = Inr (sc\<lparr>objects := objects sc @ [u]\<rparr>, vs(u := set_vscene (vs u) (Some self)))
       \<and> (vs(u := set_vscene (vs u) (Some self))) v = vs v
       \<and> Scene_add self sc vs [u, v]
           = Inr (sc\<lparr>objects := objects sc @ [u]\<rparr>, vs(u := set_vscene (vs u) (Some self)))"
proof -
  let ?sc1 = "sc\<lparr>objects := objects sc @ [u]\<rparr>"
  let ?vs1 = "vs(u := set_vscene (vs u) (Some self))"
  have len: "length (components (vs u)) = length (components (vs v))"
    using assms(3,4,5) by (auto simp add: Vector_ok_def)
  have comps: "components (?vs1 x) = components (vs x)" for x
    by (simp add: set_vscene_def)
  have found: "list_contains ?vs1 (objects ?sc1) v = Inr True"
    using list_contains_later [where vt = ?vs1, OF assms(1) comps assms(2) len assms(6)]
    by simp
  have first: "Scene_add self sc vs [u] = Inr (?sc1, ?vs1)"
    using assms(1) by simp
  have second: "Scene_add self ?sc1 ?vs1 [v] = Inr (?sc1, ?vs1)"
    using found by simp
  have both: "Scene_add self sc vs [u, v] = Inr (?sc1, ?vs1)"
    using assms(1) found by simp
  show ?thesis
    using first second both assms(2) by simp
qed

theorem C9_witness:
  "Scene_add 7 (near_scene\<lparr>objects := []\<rparr>) near_store [0]
     = Inr (near_scene\<lparr>objects := []\<rparr>
              \<lparr>objects := objects (near_scene\<lparr>objects := []\<rparr>) @ [0]\<rparr>,
            near_store(0 := set_vscene (near_store 0) (Some 7)))
   \<and> Scene_add 7
         (near_scene\<lparr>objects := []\<rparr>
            \<lparr>objects := objects (near_scene\<lparr>objects := []\<rparr>) @ [0]\<rparr>)
         (near_store(0 := set_vscene (near_store 0) (Some 7))) [1]
     = Inr (near_scene\<lparr>objects := []\<rparr>
              \<lparr>objects := objects (near_scene\<lparr>objects := []\<rparr>) @ [0]\<rparr>,
            near_store(0 := set_vscene (near_store 0) (Some 7)))"
proof -
  have h1: "list_contains near_store (objects (near_scene\<lparr>objects := []\<rparr>)) 0 = Inr False"
    by simp
  have h2: "(0::nat) \<noteq> 1" by simp
  have h3: "Vector_ok (near_store 0)" and h4: "Vector_ok (near_store 1)"
    by (simp_all add: near_store_def Vector_ok_def)
  have h5: "vdim (near_store 0) = vdim (near_store 1)"
    by (simp add: near_store_def)
  have h6: "Vector_eq (near_store 0) (near_store 1) = Inr True"
    by (simp add: near_store_def Vector_eq_def np_allclose_def np_broadcast_def)
  from C9_add_deduplicates_by_value [OF h1 h2 h3 h4 h5 h6, of 7]
  show ?thesis by blast
qed

text \<open>
  The claim as stated is for any Scene. Closeness is not transitive: in a scene that
  already holds \<open>(0, 0)\<close>, adding \<open>u = (8e-9, 0)\<close> is itself a no-op, and
  \<open>v = (1.6e-8, 0)\<close>, which is close to \<open>u\<close> in both directions but not to \<open>(0, 0)\<close>,
  is then appended and gets its scene pointer set.
\<close>

theorem C9_counterexample:
  "(1::nat) \<noteq> 2
   \<and> vdim (near_store 1) = vdim (near_store 2)
   \<and> Vector_eq (near_store 1) (near_store 2) = Inr True
   \<and> Vector_eq (near_store 2) (near_store 1) = Inr True
   \<and> vscene (near_store 2) = None
   \<and> Scene_add 7 near_scene near_store [1] = Inr (near_scene, near_store)
   \<and> Scene_add 7 near_scene near_store [2]
       = Inr (near_scene\<lparr>objects := [0, 2]\<rparr>,
              near_store(2 := set_vscene (near_store 2) (Some 7)))
   \<and> vscene ((near_store(2 := set_vscene (near_store 2) (Some 7))) 2) = Some 7"
  by (simp add: near_store_def near_scene_def Vector_eq_def np_allclose_def np_broadcast_def
        set_vscene_def)

section \<open>Properties of Timeline: stop and play\<close>

lemma Animation_reset_init:
  "Animation_reset a = Animation_init (duration a) (Some (easing a))"
  by (simp add: Animation_reset_def Animation_init_def)

lemma Animation_reset_twice: "Animation_reset (Animation_reset a) = Animation_reset a"
  by (simp add: Animation_reset_def)

lemma reset_bucket_store:
  "reset_bucket anims st = (\<lambda>a. if a \<in> set anims then Animation_reset (st a) else st a)"
  by (induction anims arbitrary: st) (auto simp add: Animation_reset_twice fun_eq_iff)

lemma reset_buckets_store:
  "reset_buckets d st
     = (\<lambda>a. if a \<in> set (concat (map snd d)) then Animation_reset (st a) else st a)"
proof (induction d arbitrary: st)
  case Nil
  show ?case by simp
next
  case (Cons b d)
  obtain t anims where b: "b = (t, anims)" by (cases b)
  show ?case
    unfolding b
    by (simp add: Cons.IH reset_bucket_store) (auto simp add: Animation_reset_twice fun_eq_iff)
qed

lemma Timeline_stop_fresh:
  "Timeline_stop tline st
     = (tline\<lparr>is_playing := False, current_time := 0, is_finished := False\<rparr>,
        fresh_store tline st)"
  by (auto simp add: Timeline_stop_def reset_buckets_store fresh_store_def
        Timeline_get_all_animations_def Animation_reset_init fun_eq_iff)

lemma bucket_append_last:
  "t \<notin> set (map fst pre) \<Longrightarrow>
     bucket_append t a (pre @ [(t, xs)]) = pre @ [(t, xs @ [a])]"
  by (induction pre) auto

lemma add_at_new:
  assumes "t \<notin> set (map fst (tl_animations T))"
  shows "Timeline_add_at T t a = T\<lparr>tl_animations := tl_animations T @ [(t, [a])]\<rparr>"
  using assms bucket_append_last [of t "tl_animations T" a "[]"]
  by (simp add: Timeline_add_at_def)

lemma add_at_last:
  assumes "tl_animations T = pre @ [(t, xs)]" and "t \<notin> set (map fst pre)"
  shows "Timeline_add_at T t a = T\<lparr>tl_animations := pre @ [(t, xs @ [a])]\<rparr>"
  using assms bucket_append_last [of t pre a xs]
  by (simp add: Timeline_add_at_def)

lemma add_bucket_rest:
  assumes "t \<notin> set (map fst pre)"
  shows "foldl (\<lambda>T (t, a). Timeline_add_at T t a) (T\<lparr>tl_animations := pre @ [(t, xs)]\<rparr>)
           (map (\<lambda>a. (t, a)) ys)
         = T\<lparr>tl_animations := pre @ [(t, xs @ ys)]\<rparr>"
proof (induction ys arbitrary: xs)
  case Nil
  show ?case by simp
next
  case (Cons y ys)
  have "Timeline_add_at (T\<lparr>tl_animations := pre @ [(t, xs)]\<rparr>) t y
          = T\<lparr>tl_animations := pre @ [(t, xs @ [y])]\<rparr>"
    using add_at_last [where T = "T\<lparr>tl_animations := pre @ [(t, xs)]\<rparr>" and pre = pre
        and t = t and xs = xs and a = y] assms by simp
  then show ?case using Cons.IH [of "xs @ [y]"] by simp
qed

lemma add_bucket:
  assumes "t \<notin> set (map fst pre)" and "anims \<noteq> []"
  shows "foldl (\<lambda>T (t, a). Timeline_add_at T t a) (T\<lparr>tl_animations := pre\<rparr>)
           (map (\<lambda>a. (t, a)) anims)
         = T\<lparr>tl_animations := pre @ [(t, anims)]\<rparr>"
proof -
  obtain y ys where a: "anims = y # ys" using assms(2) by (cases anims) auto
  have first: "Timeline_add_at (T\<lparr>tl_animations := pre\<rparr>) t y
                 = T\<lparr>tl_animations := pre @ [(t, [y])]\<rparr>"
    using add_at_new [where t = t and T = "T\<lparr>tl_animations := pre\<rparr>" and a = y] assms(1)
    by simp
  show ?thesis
    using first add_bucket_rest [OF assms(1), where T = T and xs = "[y]" and ys = ys] a by simp
qed

lemma add_buckets:
  assumes "distinct (map fst (pre @ d))" and "list_all (\<lambda>(t, anims). anims \<noteq> []) d"
  shows "foldl (\<lambda>T (t, a). Timeline_add_at T t a) (T\<lparr>tl_animations := pre\<rparr>)
           (concat (map (\<lambda>(t, anims). map (\<lambda>a. (t, a)) anims) d))
         = T\<lparr>tl_animations := pre @ d\<rparr>"
  using assms
proof (induction d arbitrary: pre)
  case Nil
  show ?case by simp
next
  case (Cons b d)
  obtain t anims where b: "b = (t, anims)" by (cases b)
  have new: "t \<notin> set (map fst pre)" and ne: "anims \<noteq> []"
    using Cons.prems b by auto
  have dis: "distinct (map fst ((pre @ [(t, anims)]) @ d))"
    using Cons.prems(1) b by simp
  have rest: "list_all (\<lambda>(t, anims). anims \<noteq> []) d"
    using Cons.prems(2) by simp
  show ?case
    using Cons.IH [OF dis rest] add_bucket [OF new ne, where T = T] b by simp
qed

lemma scheduled_schedule_of:
  assumes "dict_ok (tl_animations tline)"
  shows "scheduled (schedule_of tline)
           = \<lparr>tl_animations = tl_animations tline, current_time = 0,
              is_playing = False, is_finished = False\<rparr>"
proof -
  have "distinct (map fst ([] @ tl_animations tline))"
    and "list_all (\<lambda>(t, anims). anims \<noteq> []) (tl_animations tline)"
    using assms by (simp_all add: dict_ok_def)
  from add_buckets [OF this, where T = Timeline_init]
  show ?thesis
    by (simp add: scheduled_def schedule_of_def Timeline_init_def)
qed

lemma observe_run_total:
  "list_all (\<lambda>(t, anims). anims \<noteq> []) (tl_animations tline) \<Longrightarrow>
     \<exists>tr. observe_run tline st dts = Inr tr \<and> length tr = length dts"
proof (induction dts arbitrary: tline st)
  case Nil
  show ?case by simp
next
  case (Cons dt dts)
  from Timeline_update_total [OF Cons.prems, of st dt] obtain T st' where
    u: "Timeline_update tline st dt = Inr (T, st')" "tl_animations T = tl_animations tline"
    by blast
  have "list_all (\<lambda>(t, anims). anims \<noteq> []) (tl_animations T)"
    using Cons.prems u(2) by simp
  from Cons.IH [OF this, of st'] obtain tr where
    "observe_run T st' dts = Inr tr" "length tr = length dts" by blast
  then show ?case using u(1) by simp
qed

lemma bucket_append_keys: "map fst (bucket_append t a d) = map fst d"
  by (induction d) auto

lemma bucket_append_nonempty:
  "list_all (\<lambda>(t, anims). anims \<noteq> []) d \<Longrightarrow>
     list_all (\<lambda>(t, anims). anims \<noteq> []) (bucket_append t a d)"
  by (induction d) auto

lemma dict_ok_init: "dict_ok (tl_animations Timeline_init)"
  by (simp add: dict_ok_def Timeline_init_def)

lemma dict_ok_add_at:
  assumes "dict_ok (tl_animations T)"
  shows "dict_ok (tl_animations (Timeline_add_at T t a))"
proof (cases "t \<in> set (map fst (tl_animations T))")
  case True
  then show ?thesis
    using assms bucket_append_nonempty [of "tl_animations T" t a]
    by (simp add: dict_ok_def Timeline_add_at_def bucket_append_keys)
next
  case False
  then show ?thesis
    using assms add_at_new [of t T a] by (simp add: dict_ok_def)
qed

text \<open>
  Claim C5. For a Timeline in any state, with any schedule (a dictionary without repeated
  keys whose buckets are not empty, which \<open>__init__\<close> gives and \<open>_add_at\<close> keeps) and
  any states of its animations: \<open>stop()\<close> sets the playhead to 0 and both flags to
  false, keeps the schedule, and leaves every scheduled animation as a newly constructed
  one of its duration and easing. After \<open>stop()\<close> and \<open>play()\<close>, any sequence of
  \<open>update(dt)\<close> calls returns and yields, call by call, the same
  \<open>get_active_animations()\<close> results, the same animations in the same states, as the same
  calls on a fresh Timeline on which the same schedule has been replayed with fresh
  animations.
\<close>

theorem C5_stop_play_like_fresh:
  assumes "dict_ok (tl_animations tline)"
  shows "observe_run (Timeline_play (fst (Timeline_stop tline st)))
             (snd (Timeline_stop tline st)) dts
           = observe_run (Timeline_play (scheduled (schedule_of tline)))
               (fresh_store tline st) dts
       \<and> (\<exists>tr. observe_run (Timeline_play (fst (Timeline_stop tline st)))
                   (snd (Timeline_stop tline st)) dts = Inr tr
                \<and> length tr = length dts)
       \<and> current_time (fst (Timeline_stop tline st)) = 0
       \<and> \<not> is_playing (fst (Timeline_stop tline st))
       \<and> \<not> is_finished (fst (Timeline_stop tline st))
       \<and> tl_animations (fst (Timeline_stop tline st)) = tl_animations tline
       \<and> (\<forall>a \<in> set (Timeline_get_all_animations tline).
             elapsed (snd (Timeline_stop tline st) a) = 0
           \<and> \<not> finished (snd (Timeline_stop tline st) a)
           \<and> snd (Timeline_stop tline st) a
               = Animation_init (duration (st a)) (Some (easing (st a))))"
proof -
  let ?T = "tline\<lparr>is_playing := False, current_time := 0, is_finished := False\<rparr>"
  have same: "?T = scheduled (schedule_of tline)"
    by (simp add: scheduled_schedule_of [OF assms])
  have ne: "list_all (\<lambda>(t, anims). anims \<noteq> []) (tl_animations (Timeline_play ?T))"
    using assms by (simp add: dict_ok_def Timeline_play_def)
  from observe_run_total [OF ne, of "fresh_store tline st" dts] obtain tr where
    tr: "observe_run (Timeline_play ?T) (fresh_store tline st) dts = Inr tr"
    "length tr = length dts" by blast
  have idle: "elapsed (fresh_store tline st a) = 0 \<and> \<not> finished (fresh_store tline st a)
        \<and> fresh_store tline st a = Animation_init (duration (st a)) (Some (easing (st a)))"
    if "a \<in> set (Timeline_get_all_animations tline)" for a
    using that by (simp add: fresh_store_def Animation_init_def)
  have run: "observe_run (Timeline_play ?T) (fresh_store tline st) dts
               = observe_run (Timeline_play (scheduled (schedule_of tline)))
                   (fresh_store tline st) dts"
    using same by simp
  have flags: "current_time ?T = 0 \<and> \<not> is_playing ?T \<and> \<not> is_finished ?T
                 \<and> tl_animations ?T = tl_animations tline"
    by simp
  have idles: "\<forall>a \<in> set (Timeline_get_all_animations tline).
                 elapsed (fresh_store tline st a) = 0
               \<and> \<not> finished (fresh_store tline st a)
               \<and> fresh_store tline st a
                   = Animation_init (duration (st a)) (Some (easing (st a)))"
    using idle by blast
  show ?thesis
    unfolding Timeline_stop_fresh fst_conv snd_conv
    using run tr flags idles by blast
qed

theorem C5_witness:
  "observe_run
     (Timeline_play (fst (Timeline_stop
        ((single_timeline 2 0 3)\<lparr>is_finished := True, is_playing := False\<rparr>)
        (late_store(0 := (late_store 0)\<lparr>elapsed := 1, finished := True\<rparr>)))))
     (snd (Timeline_stop
        ((single_timeline 2 0 3)\<lparr>is_finished := True, is_playing := False\<rparr>)
        (late_store(0 := (late_store 0)\<lparr>elapsed := 1, finished := True\<rparr>))))
     [1 / 2, 1 / 2, 1 / 2, 1 / 2, 1 / 2]
   = observe_run
       (Timeline_play (scheduled (schedule_of
          ((single_timeline 2 0 3)\<lparr>is_finished := True, is_playing := False\<rparr>))))
       (fresh_store
          ((single_timeline 2 0 3)\<lparr>is_finished := True, is_playing := False\<rparr>)
          (late_store(0 := (late_store 0)\<lparr>elapsed := 1, finished := True\<rparr>)))
       [1 / 2, 1 / 2, 1 / 2, 1 / 2, 1 / 2]
   \<and> current_time (fst (Timeline_stop
        ((single_timeline 2 0 3)\<lparr>is_finished := True, is_playing := False\<rparr>)
        (late_store(0 := (late_store 0)\<lparr>elapsed := 1, finished := True\<rparr>)))) = 0
   \<and> elapsed (snd (Timeline_stop
        ((single_timeline 2 0 3)\<lparr>is_finished := True, is_playing := False\<rparr>)
        (late_store(0 := (late_store 0)\<lparr>elapsed := 1, finished := True\<rparr>))) 0) = 0"
proof -
  let ?T = "(single_timeline 2 0 3)\<lparr>is_finished := True, is_playing := False\<rparr>"
  let ?S = "late_store(0 := (late_store 0)\<lparr>elapsed := 1, finished := True\<rparr>)"
  have ok: "dict_ok (tl_animations ?T)"
    by (simp add: single_timeline_def dict_ok_def)
  have mem: "0 \<in> set (Timeline_get_all_animations ?T)"
    by (simp add: single_timeline_def Timeline_get_all_animations_def)
  from C5_stop_play_like_fresh [OF ok, of ?S "[1 / 2, 1 / 2, 1 / 2, 1 / 2, 1 / 2]"] mem
  show ?thesis by blast
qed


end
